theory Spec2Isabelle
  imports Main
begin

section \<open>The student list application (app.py)\<close>

text \<open>
  The program is a Flask application with two views over one table. The embedding keeps
  what the views read and write as explicit values: the table of the database, the
  standard output of the process, the submitted form, and the HTTP response. Whatever a
  view does to the world is returned as a new world.
\<close>

subsection \<open>Data model\<close>

text \<open>
  \<^verbatim>\<open>class Student(db.Model)\<close>: a stored row of the table \<^verbatim>\<open>student\<close>. The column \<^verbatim>\<open>id\<close> is
  called \<open>student_id\<close> here, since \<open>id\<close> is the identity function of HOL. Python's integers
  are unbounded, so the key is an \<open>int\<close>. The column \<^verbatim>\<open>name\<close> is declared
  \<^verbatim>\<open>db.String(255), nullable=False\<close>; SQLite, the engine the application is configured with,
  does not enforce the length of a VARCHAR, so a name is any string.
\<close>

record student =
  student_id :: int
  name :: string

text \<open>
  \<^verbatim>\<open>Student(name=name)\<close> builds an object that has no key yet; the engine assigns one when
  the row is written.
\<close>

datatype unsaved = Student string

text \<open>
  \<^verbatim>\<open>request.form\<close> is a multi-dictionary: an association list of the submitted fields, in
  the order of the body, where a key may occur more than once.
\<close>

type_synonym form = "(string \<times> string) list"

text \<open>
  What a view reads of \<^verbatim>\<open>flask.request\<close>; \<^verbatim>\<open>request.method\<close> is the field \<open>http_method\<close>.
\<close>

record request =
  http_method :: string
  form :: form

text \<open>
  The exceptions of the try block of \<^verbatim>\<open>add_student\<close>: the lookup of a missing form field
  (werkzeug's \<^verbatim>\<open>BadRequestKeyError\<close>, a \<^verbatim>\<open>KeyError\<close>), and an error of the storage engine at
  commit, which carries the engine's message.
\<close>

datatype exn = BadRequestKeyError string | DatabaseError string

text \<open>
  \<^verbatim>\<open>str(e)\<close>. For the key error this is the text of werkzeug's HTTP exception (code, name,
  description); for an engine error it is the message the engine gave.
\<close>

fun str :: "exn \<Rightarrow> string" where
  "str (BadRequestKeyError k) =
     ''400 Bad Request: The browser (or proxy) sent a request that this server could not understand.''"
| "str (DatabaseError msg) = msg"

text \<open>
  Standard output, as the list of what was printed: \<^verbatim>\<open>print(students)\<close> prints the list of
  the fetched objects, \<^verbatim>\<open>print(f'...')\<close> prints a line of text.
\<close>

datatype printed = Print_students "student list" | Print_line string

text \<open>
  The world a request runs in: the rows of the table in the order the engine returns
  them, and standard output.
\<close>

record world =
  table :: "student list"
  stdout :: "printed list"

text \<open>
  \<^verbatim>\<open>render_template('index.html', students=students)\<close>: the page is the named template
  rendered with the students it was given.
\<close>

datatype page = Rendered (template: string) (students: "student list")

definition render_template :: "string \<Rightarrow> student list \<Rightarrow> page" where
  "render_template template_name ss = Rendered template_name ss"

text \<open>
  Modelled from the spec: the template \<^verbatim>\<open>templates/index.html\<close> is not among the sources.
  The spec says of the list view: "Output: rendered page listing all names". What a
  rendered page lists is therefore the names of the students it was given, in their order.
\<close>

definition listed :: "page \<Rightarrow> string list" where
  "listed p = map name (students p)"

text \<open>
  An HTTP response: the status code, the \<^verbatim>\<open>Location\<close> header when there is one, and the
  rendered page when there is one.
\<close>

record response =
  status :: nat
  location :: "string option"
  body :: "page option"

subsection \<open>The framework and the storage engine\<close>

text \<open>
  The routes of the application, from the two \<^verbatim>\<open>@app.route\<close> decorators: rule, endpoint
  (the name of the view function) and methods.
\<close>

definition url_map :: "(string \<times> string \<times> string list) list" where
  "url_map = [(''/'', ''homepage'', [''GET'']), (''/student'', ''add_student'', [''POST''])]"

text \<open>\<^verbatim>\<open>url_for(endpoint)\<close>: the rule of the endpoint; an unknown endpoint raises a build error.\<close>

definition url_for :: "string \<Rightarrow> string option" where
  "url_for endpoint = map_of (map (\<lambda>(rule, ep, ms). (ep, rule)) url_map) endpoint"

text \<open>\<^verbatim>\<open>redirect(location)\<close>: Flask's default code is 302.\<close>

definition redirect :: "string \<Rightarrow> response" where
  "redirect loc = \<lparr>status = 302, location = Some loc, body = None\<rparr>"

text \<open>A view that returns the rendered template is answered with status 200.\<close>

definition ok_response :: "page \<Rightarrow> response" where
  "ok_response p = \<lparr>status = 200, location = None, body = Some p\<rparr>"

text \<open>The response to an exception that leaves a view.\<close>

definition internal_server_error :: response where
  "internal_server_error = \<lparr>status = 500, location = None, body = None\<rparr>"

text \<open>
  \<^verbatim>\<open>request.form['student']\<close>: the first value submitted under the key; a missing key
  raises.
\<close>

fun form_getitem :: "form \<Rightarrow> string \<Rightarrow> exn + string" where
  "form_getitem [] k = Inl (BadRequestKeyError k)"
| "form_getitem ((k', v) # kvs) k = (if k' = k then Inr v else form_getitem kvs k)"

text \<open>
  The key SQLite gives a new row of a table with an integer primary key: 1 in an empty
  table, otherwise one more than the largest key in use.
\<close>

definition next_id :: "student list \<Rightarrow> int" where
  "next_id t = (case t of [] \<Rightarrow> 1 | r # rs \<Rightarrow> fold (\<lambda>s m. max (student_id s) m) rs (student_id r) + 1)"

text \<open>
  The session of one request: the objects added and not yet written.
  \<^verbatim>\<open>db.session.add(student)\<close> appends to it.
\<close>

type_synonym session = "unsaved list"

definition session_add :: "unsaved \<Rightarrow> session \<Rightarrow> session" where
  "session_add s ss = ss @ [s]"

text \<open>Writing the pending objects: each becomes a new row, after the rows already stored.\<close>

fun insert_rows :: "session \<Rightarrow> student list \<Rightarrow> student list" where
  "insert_rows [] t = t"
| "insert_rows (Student n # ss) t =
     insert_rows ss (t @ [\<lparr>student_id = next_id t, name = n\<rparr>])"

text \<open>
  Whether the storage engine carries out the database operation of a request is not
  decided by the program (the database may be locked, the disk full, the file read-only),
  so it is an input of the model. Each request has one such operation: the commit of
  POST /student, the query of GET /. The engine either carries it out, or raises with a
  message. The constructors are named after the commit; for GET / they say what the query
  does.
\<close>

datatype engine = Commit_succeeds | Commit_raises string

text \<open>
  \<^verbatim>\<open>Student.query.all()\<close>: every row, with no ordering clause, so in the order of storage;
  or the error of the engine.
\<close>

definition query_all :: "engine \<Rightarrow> student list \<Rightarrow> exn + student list" where
  "query_all e t =
     (case e of
        Commit_raises msg \<Rightarrow> Inl (DatabaseError msg)
      | Commit_succeeds \<Rightarrow> Inr t)"

text \<open>
  \<^verbatim>\<open>db.session.commit()\<close>. The engine's transaction semantics apply: a commit that raises
  writes nothing, the table is what it was.
\<close>

definition session_commit :: "engine \<Rightarrow> session \<Rightarrow> student list \<Rightarrow> exn + student list" where
  "session_commit e ss t =
     (case e of
        Commit_raises msg \<Rightarrow> Inl (DatabaseError msg)
      | Commit_succeeds \<Rightarrow> Inr (insert_rows ss t))"

subsection \<open>The views\<close>

text \<open>
  \<^verbatim>\<open>homepage\<close> (GET /): fetch all students, print them, render the template with them.
  The query is not inside a try block: when it raises, the exception leaves the view
  before anything is printed or rendered, and the framework answers with status 500.
\<close>

definition homepage :: "engine \<Rightarrow> world \<Rightarrow> response \<times> world" where
  "homepage e w =
     (case query_all e (table w) of
        Inl x \<Rightarrow> (internal_server_error, w)
      | Inr students' \<Rightarrow>
          (ok_response (render_template ''index.html'' students'),
           w\<lparr>stdout := stdout w @ [Print_students students']\<rparr>))"

text \<open>
  The body of the try block of \<^verbatim>\<open>add_student\<close>: look the field up, build the student, add
  it to the (fresh) session of the request, commit. The result is the exception raised,
  or the table after the commit.
\<close>

definition add_student_try :: "engine \<Rightarrow> form \<Rightarrow> student list \<Rightarrow> exn + student list" where
  "add_student_try e f t =
     (case form_getitem f ''student'' of
        Inl x \<Rightarrow> Inl x
      | Inr nm \<Rightarrow> session_commit e (session_add (Student nm) []) t)"

text \<open>
  \<^verbatim>\<open>add_student\<close> (POST /student): under the method test, the try block with its handler,
  which prints the message of the exception; then, in every case, the redirect to the
  URL of \<^verbatim>\<open>homepage\<close>.
\<close>

definition add_student :: "engine \<Rightarrow> request \<Rightarrow> world \<Rightarrow> response \<times> world" where
  "add_student e req w =
     (let w' =
        (if http_method req = ''POST'' then
           (case add_student_try e (form req) (table w) of
              Inr t' \<Rightarrow> w\<lparr>table := t'\<rparr>
            | Inl x \<Rightarrow>
                w\<lparr>stdout := stdout w @ [Print_line (''Exception when adding student: '' @ str x)]\<rparr>)
         else w)
      in (case url_for ''homepage'' of
            Some loc \<Rightarrow> (redirect loc, w')
          | None \<Rightarrow> (internal_server_error, w')))"

subsection \<open>Requests and runs\<close>

text \<open>
  The two requests the application serves. The route of \<^verbatim>\<open>add_student\<close> admits the method
  POST only, so the view always runs with that method.
\<close>

datatype http = GET_root | POST_student form

fun handle :: "engine \<Rightarrow> http \<Rightarrow> world \<Rightarrow> response \<times> world" where
  "handle e GET_root w = homepage e w"
| "handle e (POST_student f) w = add_student e \<lparr>http_method = ''POST'', form = f\<rparr> w"

text \<open>
  A run: requests served one after the other, each with what the engine does at its
  database operation.
\<close>

fun run :: "(engine \<times> http) list \<Rightarrow> world \<Rightarrow> world" where
  "run [] w = w"
| "run ((e, r) # rs) w = run rs (snd (handle e r w))"

text \<open>
  The world after \<^verbatim>\<open>setup\<close> (\<^verbatim>\<open>db.create_all()\<close>) has created the table of a new
  database: no row, nothing printed.
\<close>

definition fresh :: world where
  "fresh = \<lparr>table = [], stdout = []\<rparr>"

subsection \<open>Vocabulary of the properties\<close>

text \<open>The names a response shows: those its page lists; a response without a page shows none.\<close>

definition listed_names :: "response \<Rightarrow> string list" where
  "listed_names r = (case body r of Some p \<Rightarrow> listed p | None \<Rightarrow> [])"

text \<open>
  The name a request submits: the value \<^verbatim>\<open>request.form['student']\<close> yields, when the field
  is present.
\<close>

fun submitted :: "http \<Rightarrow> string option" where
  "submitted GET_root = None"
| "submitted (POST_student f) =
     (case form_getitem f ''student'' of Inl x \<Rightarrow> None | Inr s \<Rightarrow> Some s)"

text \<open>A run used as an example: two submissions of the same name, then another name.\<close>

definition alice_alice_bob :: "(engine \<times> http) list" where
  "alice_alice_bob =
     [(Commit_succeeds, POST_student [(''student'', ''Alice'')]),
      (Commit_succeeds, POST_student [(''student'', ''Alice'')]),
      (Commit_succeeds, POST_student [(''student'', ''Bob'')])]"


section \<open>Properties\<close>

subsection \<open>Helper facts\<close>

lemma url_for_homepage: "url_for ''homepage'' = Some ''/''"
  by (simp add: url_for_def url_map_def)

lemmas eval_defs =
  homepage_def add_student_def add_student_try_def session_commit_def session_add_def
  query_all_def render_template_def listed_def ok_response_def redirect_def url_for_homepage
  listed_names_def next_id_def fresh_def

lemma add_student_response: "fst (add_student e req w) = redirect ''/''"
  by (simp add: add_student_def url_for_homepage Let_def)

lemma form_getitem_missing:
  "k \<notin> fst ` set f \<Longrightarrow> form_getitem f k = Inl (BadRequestKeyError k)"
  by (induction f) auto

lemma add_student_try_missing:
  "''student'' \<notin> fst ` set f \<Longrightarrow> add_student_try e f t = Inl (BadRequestKeyError ''student'')"
  by (simp add: add_student_try_def form_getitem_missing)

lemma add_student_try_present:
  "form_getitem f ''student'' = Inr s \<Longrightarrow>
   add_student_try e f t =
     (case e of
        Commit_succeeds \<Rightarrow> Inr (t @ [\<lparr>student_id = next_id t, name = s\<rparr>])
      | Commit_raises msg \<Rightarrow> Inl (DatabaseError msg))"
  by (simp add: add_student_try_def session_commit_def session_add_def split: engine.splits)

lemma add_student_raises:
  "add_student_try e f (table w) = Inl x \<Longrightarrow>
   add_student e \<lparr>http_method = ''POST'', form = f\<rparr> w =
     (redirect ''/'',
      w\<lparr>stdout := stdout w @ [Print_line (''Exception when adding student: '' @ str x)]\<rparr>)"
  by (simp add: add_student_def url_for_homepage)

lemma add_student_commits:
  "add_student_try e f (table w) = Inr t' \<Longrightarrow>
   add_student e \<lparr>http_method = ''POST'', form = f\<rparr> w = (redirect ''/'', w\<lparr>table := t'\<rparr>)"
  by (simp add: add_student_def url_for_homepage)

text \<open>
  What one request does to the table: a submission whose commit succeeds appends one row
  with a new key and the submitted name; every other request leaves the table as it is.
\<close>

lemma handle_table_eq:
  "table (snd (handle e r w)) =
     table w @ (case submitted r of
                  None \<Rightarrow> []
                | Some s \<Rightarrow> (case e of
                      Commit_succeeds \<Rightarrow> [\<lparr>student_id = next_id (table w), name = s\<rparr>]
                    | Commit_raises msg \<Rightarrow> []))"
proof (cases r)
  case GET_root
  then show ?thesis by (simp add: homepage_def split: sum.splits)
next
  case (POST_student f)
  show ?thesis
  proof (cases "form_getitem f ''student''")
    case (Inl x)
    then have "add_student_try e f (table w) = Inl x"
      by (simp add: add_student_try_def)
    then show ?thesis using POST_student Inl by (simp add: add_student_raises)
  next
    case (Inr s)
    show ?thesis
    proof (cases e)
      case Commit_succeeds
      then have "add_student_try e f (table w) =
          Inr (table w @ [\<lparr>student_id = next_id (table w), name = s\<rparr>])"
        using Inr by (simp add: add_student_try_present)
      then show ?thesis using POST_student Inr Commit_succeeds by (simp add: add_student_commits)
    next
      case (Commit_raises msg)
      then have "add_student_try e f (table w) = Inl (DatabaseError msg)"
        using Inr by (simp add: add_student_try_present)
      then show ?thesis using POST_student Inr Commit_raises by (simp add: add_student_raises)
    qed
  qed
qed

lemma handle_table: "\<exists>new. table (snd (handle e r w)) = table w @ new"
  using handle_table_eq by blast

lemma run_table: "\<exists>new. table (run steps w) = table w @ new"
proof (induction steps arbitrary: w)
  case Nil
  then show ?case by simp
next
  case (Cons s steps)
  obtain e r where s: "s = (e, r)" by (cases s)
  obtain n1 where n1: "table (snd (handle e r w)) = table w @ n1"
    using handle_table by blast
  obtain n2 where "table (run steps (snd (handle e r w))) = table (snd (handle e r w)) @ n2"
    using Cons.IH by blast
  then show ?case using s n1 by simp
qed

lemma homepage_listed:
  "listed_names (fst (handle Commit_succeeds GET_root w)) = map name (table w)"
  by (simp add: eval_defs)

subsection \<open>Failures of the insert\<close>

text \<open>
  C1: when the try block of a POST /student request raises (the field lookup or the
  commit), the exception is caught: the line with its message is appended to standard
  output, nothing else of the world changes, and the response is the plain redirect to
  \<^verbatim>\<open>/\<close>, with no body and no trace of the error.
\<close>

theorem add_student_swallows_exception:
  "add_student_try e f (table w) = Inl x \<Longrightarrow>
   handle e (POST_student f) w =
     (\<lparr>status = 302, location = Some ''/'', body = None\<rparr>,
      w\<lparr>stdout := stdout w @ [Print_line (''Exception when adding student: '' @ str x)]\<rparr>)"
  by (simp add: add_student_raises redirect_def)

theorem add_student_swallows_exception_witness:
  "add_student_try (Commit_raises ''database is locked'') [(''student'', ''Alice'')] (table fresh) =
     Inl (DatabaseError ''database is locked'') \<and>
   handle (Commit_raises ''database is locked'') (POST_student [(''student'', ''Alice'')]) fresh =
     (\<lparr>status = 302, location = Some ''/'', body = None\<rparr>,
      \<lparr>table = [], stdout = [Print_line ''Exception when adding student: database is locked'']\<rparr>)"
proof -
  have h: "add_student_try (Commit_raises ''database is locked'') [(''student'', ''Alice'')]
      (table fresh) = Inl (DatabaseError ''database is locked'')"
    by (simp add: add_student_try_def session_commit_def)
  show ?thesis
    using h add_student_swallows_exception [OF h] by (simp add: fresh_def)
qed

text \<open>
  C4: a POST /student request whose form has no field \<^verbatim>\<open>student\<close> is answered with the
  redirect to \<^verbatim>\<open>/\<close>: the key error of the lookup is caught and its message printed.
\<close>

theorem missing_field_redirects:
  "''student'' \<notin> fst ` set f \<Longrightarrow>
   handle e (POST_student f) w =
     (redirect ''/'',
      w\<lparr>stdout := stdout w @
         [Print_line (''Exception when adding student: '' @ str (BadRequestKeyError ''student''))]\<rparr>)"
  by (simp add: add_student_raises add_student_try_missing)

theorem missing_field_redirects_witness:
  "''student'' \<notin> fst ` set [(''name'', ''Alice'')] \<and>
   handle Commit_succeeds (POST_student [(''name'', ''Alice'')]) fresh =
     (\<lparr>status = 302, location = Some ''/'', body = None\<rparr>,
      \<lparr>table = [], stdout = [Print_line
        ''Exception when adding student: 400 Bad Request: The browser (or proxy) sent a request that this server could not understand.'']\<rparr>)"
proof -
  have h: "''student'' \<notin> fst ` set [(''name'', ''Alice'')]" by simp
  show ?thesis
    using h missing_field_redirects [OF h, of Commit_succeeds fresh]
    by (simp add: fresh_def redirect_def)
qed

text \<open>
  C6: a POST /student request whose try block raises leaves the table exactly as it was
  before the request.
\<close>

theorem failed_insert_leaves_database:
  "add_student_try e f (table w) = Inl x \<Longrightarrow>
   table (snd (handle e (POST_student f) w)) = table w"
  by (simp add: add_student_raises)

theorem failed_insert_leaves_database_witness:
  "add_student_try Commit_succeeds [] [\<lparr>student_id = 1, name = ''Alice''\<rparr>] =
     Inl (BadRequestKeyError ''student'') \<and>
   table (snd (handle Commit_succeeds (POST_student [])
      \<lparr>table = [\<lparr>student_id = 1, name = ''Alice''\<rparr>], stdout = []\<rparr>)) =
     [\<lparr>student_id = 1, name = ''Alice''\<rparr>] \<and>
   add_student_try (Commit_raises ''disk full'') [(''student'', ''Bob'')]
      [\<lparr>student_id = 1, name = ''Alice''\<rparr>] = Inl (DatabaseError ''disk full'') \<and>
   table (snd (handle (Commit_raises ''disk full'') (POST_student [(''student'', ''Bob'')])
      \<lparr>table = [\<lparr>student_id = 1, name = ''Alice''\<rparr>], stdout = []\<rparr>)) =
     [\<lparr>student_id = 1, name = ''Alice''\<rparr>]"
proof -
  let ?w = "\<lparr>table = [\<lparr>student_id = 1, name = ''Alice''\<rparr>], stdout = []\<rparr>"
  have h1: "add_student_try Commit_succeeds [] (table ?w) = Inl (BadRequestKeyError ''student'')"
    by (simp add: add_student_try_def)
  have h2: "add_student_try (Commit_raises ''disk full'') [(''student'', ''Bob'')] (table ?w) =
      Inl (DatabaseError ''disk full'')"
    by (simp add: add_student_try_def session_commit_def)
  show ?thesis
    using h1 h2 failed_insert_leaves_database [OF h1] failed_insert_leaves_database [OF h2]
    by simp
qed

text \<open>
  C10: the response of \<^verbatim>\<open>add_student\<close> is constant. Whatever the two requests (method and
  form), the outcomes of their commits and the states of the database, the two responses
  are equal, and each is the redirect to \<^verbatim>\<open>/\<close> with no body.
\<close>

theorem add_student_response_constant:
  "fst (add_student e1 req1 w1) = fst (add_student e2 req2 w2) \<and>
   fst (add_student e1 req1 w1) = \<lparr>status = 302, location = Some ''/'', body = None\<rparr>"
  by (simp add: add_student_response redirect_def)

subsection \<open>The table only grows\<close>

text \<open>
  C8: no request updates or deletes a row. After any request (GET / or POST /student,
  whatever the engine does at the commit) the rows that were in the table are still its
  first rows, unchanged and in the same order; so each of them is still in the table.
\<close>

theorem rows_never_updated_or_deleted:
  "take (length (table w)) (table (snd (handle e r w))) = table w \<and>
   set (table w) \<subseteq> set (table (snd (handle e r w)))"
proof -
  obtain new where "table (snd (handle e r w)) = table w @ new"
    using handle_table by blast
  then show ?thesis by simp
qed

text \<open>
  C9: when the field \<^verbatim>\<open>student\<close> is present, the row a POST /student request inserts
  carries the submitted string as it is: the table after the request is the table before
  it, followed by one row with that very name when the commit succeeds, and by nothing
  when it raises. Nothing depends on the string, so the empty string and a string of more
  than 255 characters are stored as submitted.
\<close>

theorem submitted_name_stored_verbatim:
  "form_getitem f ''student'' = Inr s \<Longrightarrow>
   table (snd (handle e (POST_student f) w)) =
     table w @ (case e of
                  Commit_succeeds \<Rightarrow> [\<lparr>student_id = next_id (table w), name = s\<rparr>]
                | Commit_raises msg \<Rightarrow> [])"
proof -
  assume "form_getitem f ''student'' = Inr s"
  then have "submitted (POST_student f) = Some s" by simp
  then show ?thesis
    using handle_table_eq [of e "POST_student f" w] by (simp only: option.case)
qed

theorem submitted_name_stored_verbatim_witness:
  "form_getitem [(''student'', [])] ''student'' = Inr [] \<and>
   table (snd (handle Commit_succeeds (POST_student [(''student'', [])]) fresh)) =
     [\<lparr>student_id = 1, name = []\<rparr>] \<and>
   form_getitem [(''student'', replicate 256 (CHR ''a''))] ''student'' =
     Inr (replicate 256 (CHR ''a'')) \<and>
   255 < length (replicate 256 (CHR ''a'')) \<and>
   table (snd (handle Commit_succeeds (POST_student [(''student'', replicate 256 (CHR ''a''))]) fresh)) =
     [\<lparr>student_id = 1, name = replicate 256 (CHR ''a'')\<rparr>]"
proof -
  have h1: "form_getitem [(''student'', [])] ''student'' = Inr []" by simp
  have h2: "form_getitem [(''student'', replicate 256 (CHR ''a''))] ''student'' =
      Inr (replicate 256 (CHR ''a''))" by simp
  have t: "table fresh = []" "next_id [] = 1" by (simp_all add: fresh_def next_id_def)
  show ?thesis
    using h1 h2
      submitted_name_stored_verbatim [OF h1, of Commit_succeeds fresh]
      submitted_name_stored_verbatim [OF h2, of Commit_succeeds fresh]
    by (simp only: t engine.case append_Nil length_replicate) simp
qed

subsection \<open>The list page\<close>

text \<open>
  C7, amended: a GET / whose query does not raise answers with status 200 and the template
  \<^verbatim>\<open>index.html\<close> rendered with all the rows of the table, in the order of storage; the page
  lists exactly their names, in that order. The view prints the fetched rows and changes
  nothing else. On an empty table such a request answers with status 200 and a page that
  lists no student.
\<close>

theorem homepage_lists_all_names:
  "handle Commit_succeeds GET_root w =
     (\<lparr>status = 200, location = None, body = Some (Rendered ''index.html'' (table w))\<rparr>,
      w\<lparr>stdout := stdout w @ [Print_students (table w)]\<rparr>) \<and>
   listed_names (fst (handle Commit_succeeds GET_root w)) = map name (table w) \<and>
   status (fst (handle Commit_succeeds GET_root (w\<lparr>table := []\<rparr>))) = 200 \<and>
   listed_names (fst (handle Commit_succeeds GET_root (w\<lparr>table := []\<rparr>))) = []"
  by (simp add: eval_defs)

text \<open>
  The claim C7 as it is written fails when the query raises: on a new (empty) database
  whose engine reports a lock, GET / is answered with status 500 and no page.
\<close>

theorem failed_query_renders_no_page:
  "table fresh = [] \<and>
   status (fst (handle (Commit_raises ''database is locked'') GET_root fresh)) = 500 \<and>
   status (fst (handle (Commit_raises ''database is locked'') GET_root fresh)) \<noteq> 200 \<and>
   body (fst (handle (Commit_raises ''database is locked'') GET_root fresh)) = None"
  by (simp add: eval_defs internal_server_error_def)

text \<open>
  C2, amended: a non-empty name submitted in the field \<^verbatim>\<open>student\<close> of a POST /student
  request whose commit does not raise is listed by the page of every later GET / whose
  query does not raise, whatever requests are served in between.
\<close>

theorem committed_name_is_listed:
  "form_getitem f ''student'' = Inr nm \<Longrightarrow> nm \<noteq> [] \<Longrightarrow>
   nm \<in> set (listed_names (fst (handle Commit_succeeds GET_root
          (run steps (snd (handle Commit_succeeds (POST_student f) w))))))"
proof -
  assume present: "form_getitem f ''student'' = Inr nm"
  let ?w1 = "snd (handle Commit_succeeds (POST_student f) w)"
  have "table ?w1 = table w @ [\<lparr>student_id = next_id (table w), name = nm\<rparr>]"
    using present by (simp add: handle_table_eq del: handle.simps)
  moreover obtain new where "table (run steps ?w1) = table ?w1 @ new"
    using run_table by blast
  ultimately have "nm \<in> set (map name (table (run steps ?w1)))"
    by simp
  then show ?thesis by (simp only: homepage_listed)
qed

theorem committed_name_is_listed_witness:
  "form_getitem [(''student'', ''Bob'')] ''student'' = Inr ''Bob'' \<and> ''Bob'' \<noteq> [] \<and>
   ''Bob'' \<in> set (listed_names (fst (handle Commit_succeeds GET_root
      (run [(Commit_succeeds, GET_root), (Commit_raises ''disk full'', POST_student [(''student'', ''Eve'')])]
         (snd (handle Commit_succeeds (POST_student [(''student'', ''Bob'')])
            \<lparr>table = [\<lparr>student_id = 1, name = ''Alice''\<rparr>], stdout = []\<rparr>))))))"
proof -
  have h1: "form_getitem [(''student'', ''Bob'')] ''student'' = Inr ''Bob''" by simp
  have h2: "''Bob'' \<noteq> []" by simp
  show ?thesis
    using h1 h2 committed_name_is_listed [OF h1 h2] by blast
qed

text \<open>
  The claim C2 as it is written fails in two ways, both on a new database with the
  non-empty name Alice submitted. When the commit of the POST raises, the next GET /
  lists no Alice. When the commit succeeds and the query of the next GET / raises, that
  GET / renders no page, so it lists no Alice either.
\<close>

theorem failed_commit_name_not_listed:
  "form_getitem [(''student'', ''Alice'')] ''student'' = Inr ''Alice'' \<and> ''Alice'' \<noteq> [] \<and>
   ''Alice'' \<notin> set (listed_names (fst (handle Commit_succeeds GET_root
      (snd (handle (Commit_raises ''database is locked'')
         (POST_student [(''student'', ''Alice'')]) fresh))))) \<and>
   ''Alice'' \<notin> set (listed_names (fst (handle (Commit_raises ''database is locked'') GET_root
      (snd (handle Commit_succeeds (POST_student [(''student'', ''Alice'')]) fresh)))))"
  by (simp add: eval_defs internal_server_error_def)

subsection \<open>Counting rows\<close>

text \<open>
  C3, amended: N POST /student requests, each with the field \<^verbatim>\<open>student\<close> present and each
  with a commit that succeeds, leave exactly N rows more than before (exactly N on a new
  database), and the names of the new rows are the submitted names in the order of the
  requests: a name submitted again is stored again, no request merges with or updates a
  row.
\<close>

theorem successful_posts_append_rows:
  "list_all (\<lambda>s. submitted (snd s) \<noteq> None) steps \<Longrightarrow>
   list_all (\<lambda>s. fst s = Commit_succeeds) steps \<Longrightarrow>
   length (table (run steps w)) = length (table w) + length steps \<and>
   map name (table (run steps w)) = map name (table w) @ map (\<lambda>s. the (submitted (snd s))) steps"
proof (induction steps arbitrary: w)
  case Nil
  then show ?case by simp
next
  case (Cons s steps)
  obtain e r where s: "s = (e, r)" by (cases s)
  from Cons.prems s obtain nm where nm: "submitted r = Some nm" and e: "e = Commit_succeeds"
    by auto
  let ?w1 = "snd (handle e r w)"
  have t1: "table ?w1 = table w @ [\<lparr>student_id = next_id (table w), name = nm\<rparr>]"
    using nm e by (simp add: handle_table_eq)
  have "length (table (run steps ?w1)) = length (table ?w1) + length steps \<and>
        map name (table (run steps ?w1)) =
          map name (table ?w1) @ map (\<lambda>s. the (submitted (snd s))) steps"
    using Cons.IH Cons.prems by simp
  then show ?case using s nm t1 by simp
qed

theorem successful_posts_append_rows_witness:
  "list_all (\<lambda>s. submitted (snd s) \<noteq> None) alice_alice_bob \<and>
   list_all (\<lambda>s. fst s = Commit_succeeds) alice_alice_bob \<and>
   length (table (run alice_alice_bob fresh)) = 3 \<and>
   map name (table (run alice_alice_bob fresh)) = [''Alice'', ''Alice'', ''Bob'']"
proof -
  have h1: "list_all (\<lambda>s. submitted (snd s) \<noteq> None) alice_alice_bob"
    by (simp add: alice_alice_bob_def)
  have h2: "list_all (\<lambda>s. fst s = Commit_succeeds) alice_alice_bob"
    by (simp add: alice_alice_bob_def)
  have "length (table (run alice_alice_bob fresh)) = length (table fresh) + length alice_alice_bob \<and>
        map name (table (run alice_alice_bob fresh)) =
          map name (table fresh) @ map (\<lambda>s. the (submitted (snd s))) alice_alice_bob"
    by (rule successful_posts_append_rows [OF h1 h2])
  moreover have "table fresh = []" by (simp add: fresh_def)
  moreover have "length alice_alice_bob = 3" by (simp add: alice_alice_bob_def)
  moreover have "map (\<lambda>s. the (submitted (snd s))) alice_alice_bob = [''Alice'', ''Alice'', ''Bob'']"
    by (simp add: alice_alice_bob_def)
  ultimately show ?thesis using h1 h2 by simp
qed

text \<open>
  The claim C3 as it is written fails when a commit raises: one POST /student request with
  the field present, on a new database, leaves no row.
\<close>

theorem failed_commit_appends_no_row:
  "submitted (POST_student [(''student'', ''Alice'')]) \<noteq> None \<and>
   length (table (run [(Commit_raises ''database is locked'',
                        POST_student [(''student'', ''Alice'')])] fresh)) \<noteq>
   length [(Commit_raises ''database is locked'', POST_student [(''student'', ''Alice'')])]"
  by (simp add: eval_defs)

subsection \<open>Names of the stored rows\<close>

text \<open>
  C5, amended: every name of the table is non-empty after a run of GET / and
  POST /student requests, provided that every name was non-empty before the run (as on a
  new database) and that no request of the run submits the empty string in the field
  \<^verbatim>\<open>student\<close>.
\<close>

theorem nonempty_names_preserved:
  "list_all (\<lambda>r. name r \<noteq> []) (table w) \<Longrightarrow>
   list_all (\<lambda>s. submitted (snd s) \<noteq> Some []) steps \<Longrightarrow>
   list_all (\<lambda>r. name r \<noteq> []) (table (run steps w))"
proof (induction steps arbitrary: w)
  case Nil
  then show ?case by simp
next
  case (Cons s steps)
  obtain e r where s: "s = (e, r)" by (cases s)
  have "submitted r \<noteq> Some []" using Cons.prems(2) s by simp
  then have "list_all (\<lambda>r. name r \<noteq> []) (table (snd (handle e r w)))"
    using Cons.prems(1)
    by (auto simp: handle_table_eq split: option.splits engine.splits)
  then show ?case using Cons.IH Cons.prems(2) s by simp
qed

theorem nonempty_names_preserved_witness:
  "list_all (\<lambda>r. name r \<noteq> []) (table \<lparr>table = [\<lparr>student_id = 1, name = ''Alice''\<rparr>], stdout = []\<rparr>) \<and>
   list_all (\<lambda>s. submitted (snd s) \<noteq> Some [])
     [(Commit_succeeds, POST_student [(''student'', ''Bob'')]), (Commit_succeeds, GET_root),
      (Commit_succeeds, POST_student [(''name'', ''Carol'')])] \<and>
   list_all (\<lambda>r. name r \<noteq> [])
     (table (run [(Commit_succeeds, POST_student [(''student'', ''Bob'')]), (Commit_succeeds, GET_root),
                  (Commit_succeeds, POST_student [(''name'', ''Carol'')])]
        \<lparr>table = [\<lparr>student_id = 1, name = ''Alice''\<rparr>], stdout = []\<rparr>))"
proof -
  let ?w = "\<lparr>table = [\<lparr>student_id = 1, name = ''Alice''\<rparr>], stdout = []\<rparr>"
  let ?steps = "[(Commit_succeeds, POST_student [(''student'', ''Bob'')]), (Commit_succeeds, GET_root),
                 (Commit_succeeds, POST_student [(''name'', ''Carol'')])]"
  have h1: "list_all (\<lambda>r. name r \<noteq> []) (table ?w)" by simp
  have h2: "list_all (\<lambda>s. submitted (snd s) \<noteq> Some []) ?steps" by simp
  show ?thesis
    using h1 h2 nonempty_names_preserved [OF h1 h2] by blast
qed

text \<open>
  The claim C5 as it is written fails: on a new database, the POST /student request that
  submits the empty string, with a commit that succeeds, leaves a row whose name is the
  empty string.
\<close>

theorem empty_name_is_stored:
  "\<lparr>student_id = 1, name = []\<rparr> \<in>
     set (table (run [(Commit_succeeds, POST_student [(''student'', [])])] fresh)) \<and>
   name \<lparr>student_id = 1, name = []\<rparr> = []"
  by (simp add: eval_defs)

end
